theory Spec2Isabelle
  imports Complex_Main "HOL-Library.Char_ord" "HOL-Library.List_Lexorder" "HOL-Library.Product_Lexorder"
begin

section \<open>Data model (model/schema.js)\<close>

text \<open>
  The three Mongoose schemas as records. Document ids are natural numbers. A JavaScript
  Number that carries marks, a grade point or an amount of money is a rational (the
  arithmetic of the source is then exact); a roll number and a date (milliseconds since
  the epoch) are integers. A path that may be null or absent is an \<open>option\<close>.
  Field names follow the schema; the fields of the student and result schemas whose
  names the user schema already uses carry the prefix \<open>s_\<close> or \<open>r_\<close>.
  A refresh-token entry is modelled by its token string (its creation date plays no
  part in the handlers).
\<close>

type_synonym objectId = nat
type_synonym number = rat

datatype role = super_admin | admin | teacher | student

record userDoc =
  u_id :: objectId
  firstName :: string
  lastName :: string
  email :: string
  password :: string
  role :: role
  assignedClasses :: "(string \<times> string) list"
  adminCode :: "string option"
  createdBy :: "objectId option"
  refreshTokens :: "string list"
  createdAt :: int

record paymentDetail =
  initialAmount :: number
  increasedAmount :: number
  dueDate :: int
  isPaid :: bool

record studentDoc =
  s_id :: objectId
  s_name :: string
  userName :: string
  s_password :: string
  roll :: int
  s_class :: string
  s_section :: string
  paymentAmount :: number
  hasPaid :: bool
  paymentDetails :: "paymentDetail list"
  s_createdBy :: "objectId option"
  s_refreshTokens :: "string list"
  s_createdAt :: int

record mark =
  subject :: string
  mcqScore :: number
  mcqTotal :: number
  cqScore :: number
  cqTotal :: number
  totalScore :: number
  grade :: "string option"
  gpa :: "number option"

record resultDoc =
  r_student :: objectId
  r_class :: string
  semester :: string
  examType :: string
  marks :: "mark list"
  totalMcqMarks :: number
  totalCqMarks :: number
  totalMarks :: number
  averageGPA :: number
  r_createdAt :: int

text \<open>The document store: one list per collection, in insertion order.\<close>

record db =
  users :: "userDoc list"
  students :: "studentDoc list"
  results :: "resultDoc list"

definition findUser :: "db \<Rightarrow> objectId \<Rightarrow> userDoc option" where
  "findUser d i = find (\<lambda>u. u_id u = i) (users d)"

definition findStudent :: "db \<Rightarrow> objectId \<Rightarrow> studentDoc option" where
  "findStudent d i = find (\<lambda>s. s_id s = i) (students d)"

section \<open>Responses and the two middlewares\<close>

text \<open>
  \<open>Msg st m\<close> is \<^verbatim>\<open>res.status(st).json({ message: m })\<close>; \<open>Data st x\<close> is a
  reply with status \<open>st\<close> whose body carries the payload \<open>x\<close>.
\<close>

datatype 'a response = Msg nat string | Data nat 'a

fun status :: "'a response \<Rightarrow> nat" where
  "status (Msg st m) = st"
| "status (Data st x) = st"

text \<open>\<^verbatim>\<open>s.split(' ')\<close>: the pieces of \<open>s\<close> between single spaces.\<close>

fun split_space :: "string \<Rightarrow> string list" where
  "split_space [] = [] # []"
| "split_space (c # cs) =
     (if c = CHR '' '' then [] # split_space cs
      else (case split_space cs of
              [] \<Rightarrow> [c] # []
            | w # ws \<Rightarrow> (c # w) # ws))"

text \<open>
  \<^verbatim>\<open>authHeader && authHeader.split(' ')[1]\<close>, with \<open>None\<close> for every falsy
  outcome (no header, an empty header, no second piece, an empty second piece).
\<close>

definition bearerToken :: "string option \<Rightarrow> string option" where
  "bearerToken authHeader =
     (case authHeader of
        None \<Rightarrow> None
      | Some h \<Rightarrow>
          (if h = [] then None
           else (case split_space h of
                   a # t # rest \<Rightarrow> (if t = [] then None else Some t)
                 | _ \<Rightarrow> None)))"

text \<open>
  \<open>authenticateToken\<close>. The signature check \<^verbatim>\<open>jwt.verify\<close> is a parameter: it
  maps a token to the id in its payload, or to \<open>None\<close> when the token is forged or
  expired. \<open>Inr i\<close> is the call of \<^verbatim>\<open>next()\<close> with \<^verbatim>\<open>req.user.id = i\<close>.
\<close>

definition authenticateToken ::
  "(string \<Rightarrow> objectId option) \<Rightarrow> string option \<Rightarrow> (nat \<times> string) + objectId" where
  "authenticateToken jwtVerify authHeader =
     (case bearerToken authHeader of
        None \<Rightarrow> Inl (401, ''Access token required'')
      | Some token \<Rightarrow>
          (case jwtVerify token of
             None \<Rightarrow> Inl (403, ''Invalid or expired token'')
           | Some i \<Rightarrow> Inr i))"

text \<open>\<open>requireRole\<close>: \<open>Inr u\<close> is \<^verbatim>\<open>next()\<close> with \<^verbatim>\<open>req.currentUser = u\<close>.\<close>

definition requireRole :: "role list \<Rightarrow> db \<Rightarrow> objectId \<Rightarrow> (nat \<times> string) + userDoc" where
  "requireRole allowedRoles d reqUserId =
     (case findUser d reqUserId of
        None \<Rightarrow> Inl (404, ''User not found'')
      | Some user \<Rightarrow>
          (if role user \<notin> set allowedRoles then Inl (403, ''Insufficient permissions'')
           else Inr user))"

section \<open>Deleting a user (updete/route.js, DELETE /user/:id)\<close>

text \<open>
  \<^verbatim>\<open>user.createdBy.toString()\<close> throws when \<open>createdBy\<close> is null (the bootstrap
  super-admin has the schema default null); the handler's catch block answers 500.
  \<^verbatim>\<open>User.deleteOne({ _id: id })\<close> removes the first document with that id.
\<close>

fun deleteOne :: "('a \<Rightarrow> bool) \<Rightarrow> 'a list \<Rightarrow> 'a list" where
  "deleteOne p [] = []"
| "deleteOne p (x # xs) = (if p x then xs else x # deleteOne p xs)"

definition deleteUserHandler :: "db \<Rightarrow> objectId \<Rightarrow> objectId \<Rightarrow> unit response \<times> db" where
  "deleteUserHandler d reqUserId i =
     (case findUser d i of
        None \<Rightarrow> (Msg 404 ''User not found'', d)
      | Some user \<Rightarrow>
          (case findUser d reqUserId of
             None \<Rightarrow> (Msg 500 ''Server error'', d)
           | Some currentUser \<Rightarrow>
               (if role currentUser \<noteq> super_admin \<and> createdBy user = None
                then (Msg 500 ''Server error'', d)
                else if role currentUser \<noteq> super_admin \<and> createdBy user \<noteq> Some reqUserId
                then (Msg 403 ''Not authorized to delete this user'', d)
                else if role user = super_admin
                then (Msg 403 ''Super admin cannot be deleted'', d)
                else (Msg 200 ''User deleted successfully'',
                      d\<lparr>users := deleteOne (\<lambda>u. u_id u = i) (users d)\<rparr>))))"

definition route_deleteUser ::
  "(string \<Rightarrow> objectId option) \<Rightarrow> db \<Rightarrow> string option \<Rightarrow> objectId \<Rightarrow> unit response \<times> db" where
  "route_deleteUser jwtVerify d authHeader i =
     (case authenticateToken jwtVerify authHeader of
        Inl (st, m) \<Rightarrow> (Msg st m, d)
      | Inr reqUserId \<Rightarrow>
          (case requireRole [super_admin, admin] d reqUserId of
             Inl (st, m) \<Rightarrow> (Msg st m, d)
           | Inr currentUser \<Rightarrow> deleteUserHandler d reqUserId i))"

section \<open>Grading: the pre-save hook of the result schema (model/schema.js)\<close>

text \<open>
  What a failed save carries: a plain \<^verbatim>\<open>Error\<close> with its message (the hooks raise
  these), a schema validation failure, or a unique-index violation (code 11000) with the
  name of the index path.
\<close>

datatype error = Error string | ValidationError | DuplicateKey string







text \<open>
  Mongoose runs a hook through its hook runner (kareem), which wraps the callback so
  that it can only be called once: the first call of \<^verbatim>\<open>next\<close> settles the hook, with
  its error or without, and later calls are dropped. A hook that never calls it never
  settles (\<open>None\<close>).
\<close>

definition settle :: "error option list \<times> 'a \<Rightarrow> (error + 'a) option" where
  "settle r = (case fst r of
                 [] \<Rightarrow> None
               | Some e # rest \<Rightarrow> Some (Inl e)
               | None # rest \<Rightarrow> Some (Inr (snd r)))"




section \<open>Submitting a combined result (result/route.js, POST /submit/combined)\<close>



text \<open>Truthiness of an optional string and of an optional number.\<close>

definition truthy :: "string option \<Rightarrow> bool" where
  "truthy x = (case x of None \<Rightarrow> False | Some v \<Rightarrow> v \<noteq> [])"






section \<open>Reading results (result/route.js)\<close>

text \<open>
  \<^verbatim>\<open>Result.findOne(filter).sort({ createdAt: -1 })\<close>: among the matching documents the
  one created last (the earliest stored one among equals).
\<close>

definition latestResult :: "resultDoc list \<Rightarrow> resultDoc option" where
  "latestResult rs =
     (case rs of
        [] \<Rightarrow> None
      | r # rest \<Rightarrow>
          Some (foldl (\<lambda>best x. if r_createdAt x > r_createdAt best then x else best) r rest))"

text \<open>\<^verbatim>\<open>s.toUpperCase()\<close> on the letters a to z.\<close>

definition toUpperCase :: "string \<Rightarrow> string" where
  "toUpperCase s =
     map (\<lambda>c. if of_char c \<ge> (97::nat) \<and> of_char c \<le> (122::nat)
              then char_of (of_char c - (32::nat)) else c) s"

text \<open>
  The body of a successful reply: the student's name, roll, class and section, and the
  result's exam type, semester, marks, three totals and average grade point.
\<close>

type_synonym resultsReply =
  "(string \<times> int \<times> string \<times> string)
   \<times> (string \<times> string \<times> mark list \<times> number \<times> number \<times> number \<times> number)"

definition resultsReplyOf :: "studentDoc \<Rightarrow> resultDoc \<Rightarrow> resultsReply" where
  "resultsReplyOf stu r =
     ((s_name stu, roll stu, s_class stu, s_section stu),
      (examType r, semester r, marks r, totalMcqMarks r, totalCqMarks r, totalMarks r,
       averageGPA r))"

definition getResultsHandler :: "db \<Rightarrow> objectId \<Rightarrow> resultsReply response" where
  "getResultsHandler d studentId =
     (case findStudent d studentId of
        None \<Rightarrow> Msg 404 ''Student not found''
      | Some stu \<Rightarrow>
          (case latestResult (filter (\<lambda>r. r_student r = studentId) (results d)) of
             None \<Rightarrow> Msg 404 ''No results found for this student''
           | Some r \<Rightarrow> Data 200 (resultsReplyOf stu r)))"

definition getResultsByExamTypeHandler :: "db \<Rightarrow> objectId \<Rightarrow> string \<Rightarrow> resultsReply response" where
  "getResultsByExamTypeHandler d studentId et =
     (case findStudent d studentId of
        None \<Rightarrow> Msg 404 ''Student not found''
      | Some stu \<Rightarrow>
          (case latestResult
                  (filter (\<lambda>r. r_student r = studentId \<and> examType r = et) (results d)) of
             None \<Rightarrow> Msg 404 (''No '' @ toUpperCase et @ '' results found for this student'')
           | Some r \<Rightarrow> Data 200 (resultsReplyOf stu r)))"

text \<open>
  The two routes as they are registered. \<^verbatim>\<open>router.get("/results/:studentId", async ...)\<close>
  has the handler as its only callback, so neither the header nor the token check takes
  part; \<^verbatim>\<open>router.get("/results/:studentId/:examType", authenticateToken, async ...)\<close>
  runs the token check first.
\<close>

definition route_getResults ::
  "(string \<Rightarrow> objectId option) \<Rightarrow> db \<Rightarrow> string option \<Rightarrow> objectId \<Rightarrow> resultsReply response" where
  "route_getResults jwtVerify d authHeader studentId = getResultsHandler d studentId"

definition route_getResultsByExamType ::
  "(string \<Rightarrow> objectId option) \<Rightarrow> db \<Rightarrow> string option \<Rightarrow> objectId \<Rightarrow> string \<Rightarrow>
   resultsReply response" where
  "route_getResultsByExamType jwtVerify d authHeader studentId et =
     (case authenticateToken jwtVerify authHeader of
        Inl (st, m) \<Rightarrow> Msg st m
      | Inr reqUserId \<Rightarrow> getResultsByExamTypeHandler d studentId et)"

section \<open>Reading students (students/route.js)\<close>







text \<open>
  The collection read \<^verbatim>\<open>GET /student\<close>. A query is a predicate on students;
  \<^verbatim>\<open>Student.find(query).sort({ class: 1, section: 1, roll: 1 })\<close> keeps the matching
  documents in that order.
\<close>

definition strOf :: "string option \<Rightarrow> string" where
  "strOf x = (case x of None \<Rightarrow> [] | Some v \<Rightarrow> v)"










section \<open>Saving a student: validators and the pre-save hook (model/schema.js)\<close>

text \<open>
  The hook of the student schema. It reads the clock (\<open>currentDate\<close>), derives
  \<open>hasPaid\<close> and \<open>paymentAmount\<close> from the last entry of \<open>paymentDetails\<close>, and calls
  \<^verbatim>\<open>next()\<close> once.
\<close>

definition studentPreSave :: "int \<Rightarrow> studentDoc \<Rightarrow> error option list \<times> studentDoc" where
  "studentPreSave currentDate s =
     (if paymentDetails s \<noteq> [] then
        (let latestPayment = last (paymentDetails s)
         in ([None],
             s\<lparr>hasPaid := isPaid latestPayment,
               paymentAmount := (if isPaid latestPayment then 0
                                 else if currentDate > dueDate latestPayment
                                 then increasedAmount latestPayment
                                 else initialAmount latestPayment)\<rparr>))
      else ([None], s\<lparr>paymentAmount := 0, hasPaid := False\<rparr>))"

text \<open>The \<^verbatim>\<open>trim\<close> setter of the paths \<open>name\<close> and \<open>userName\<close> (ASCII white space).\<close>

definition isSpace :: "char \<Rightarrow> bool" where
  "isSpace c = (of_char c \<in> set [9, 10, 11, 12, 13, 32 :: nat])"

definition trim :: "string \<Rightarrow> string" where
  "trim s = rev (dropWhile isSpace (rev (dropWhile isSpace s)))"

definition validateStudent :: "studentDoc \<Rightarrow> bool" where
  "validateStudent s =
     (s_name s \<noteq> [] \<and> userName s \<noteq> [] \<and> length (s_password s) \<ge> 6
      \<and> s_class s \<noteq> [] \<and> s_section s \<noteq> [] \<and> paymentAmount s \<ge> 0
      \<and> list_all (\<lambda>p. initialAmount p \<ge> 0 \<and> increasedAmount p \<ge> 0) (paymentDetails s))"

text \<open>
  \<^verbatim>\<open>student.save()\<close> on a stored student: the validators, the hook, then the update of
  the stored document, which the unique index on \<open>userName\<close> may refuse.
\<close>

definition saveStudent :: "int \<Rightarrow> db \<Rightarrow> studentDoc \<Rightarrow> ((error + studentDoc) \<times> db) option" where
  "saveStudent now d s =
     (if \<not> validateStudent s then Some (Inl ValidationError, d)
      else (case settle (studentPreSave now s) of
              None \<Rightarrow> None
            | Some (Inl e) \<Rightarrow> Some (Inl e, d)
            | Some (Inr s') \<Rightarrow>
                (if list_ex (\<lambda>x. s_id x \<noteq> s_id s' \<and> userName x = userName s') (students d)
                 then Some (Inl (DuplicateKey ''userName''), d)
                 else Some (Inr s',
                            d\<lparr>students := map (\<lambda>x. if s_id x = s_id s' then s' else x)
                                              (students d)\<rparr>))))"

section \<open>Updating a student (updete/route.js, PUT /student/:id)\<close>

record updateStudentBody =
  ub_name :: "string option"
  ub_userName :: "string option"
  ub_password :: "string option"
  ub_roll :: "int option"
  ub_class :: "string option"
  ub_section :: "string option"

definition truthyNum :: "int option \<Rightarrow> bool" where
  "truthyNum x = (case x of None \<Rightarrow> False | Some v \<Rightarrow> v \<noteq> 0)"

definition numOf :: "int option \<Rightarrow> int" where
  "numOf x = (case x of None \<Rightarrow> 0 | Some v \<Rightarrow> v)"

text \<open>
  The role-based checks. \<open>currentUser\<close> is the account behind the token, or \<open>None\<close>
  when the token belongs to a student (who then is the student being updated). The
  result is the refusal, if any.
\<close>

definition updateStudentDenied ::
  "userDoc option \<Rightarrow> studentDoc \<Rightarrow> updateStudentBody \<Rightarrow> (nat \<times> string) option" where
  "updateStudentDenied currentUser stu body =
     (case currentUser of
        Some cu \<Rightarrow>
          (if role cu = teacher then
             (let isAssigned = list_ex (\<lambda>cls. fst cls = s_class stu \<and> snd cls = s_section stu)
                                        (assignedClasses cu)
              in if \<not> isAssigned
                 then Some (403, ''Not authorized to update this student'')
                 else if truthy (ub_userName body) \<or> truthy (ub_class body)
                         \<or> truthy (ub_section body)
                 then Some (403, ''Teachers can only update name or roll'')
                 else None)
           else None)
      | None \<Rightarrow>
          (if truthyNum (ub_roll body) \<or> truthy (ub_class body) \<or> truthy (ub_section body)
              \<or> truthy (ub_userName body)
           then Some (403, ''Students can only update name or password'')
           else None))"

text \<open>
  The assignments of the handler, in its order: \<open>userName\<close> in the validation part, then
  \<open>name\<close>, \<open>password\<close> (hashed; \<open>hash\<close> stands for bcrypt with its salt), and \<open>roll\<close>,
  \<open>class\<close>, \<open>section\<close> under the condition
  \<^verbatim>\<open>['super_admin', 'admin'].includes(currentUser?.role)\<close>.
\<close>

definition isAdminRole :: "userDoc option \<Rightarrow> bool" where
  "isAdminRole currentUser =
     (case currentUser of None \<Rightarrow> False | Some cu \<Rightarrow> role cu \<in> set [super_admin, admin])"

definition updateStudentFields ::
  "(string \<Rightarrow> string) \<Rightarrow> userDoc option \<Rightarrow> studentDoc \<Rightarrow> updateStudentBody \<Rightarrow> studentDoc" where
  "updateStudentFields hash currentUser stu body =
     (let s1 = (if truthy (ub_userName body) \<and> strOf (ub_userName body) \<noteq> userName stu
                then stu\<lparr>userName := trim (strOf (ub_userName body))\<rparr> else stu);
          s2 = (if truthy (ub_name body) then s1\<lparr>s_name := trim (strOf (ub_name body))\<rparr> else s1);
          s3 = (if truthy (ub_password body)
                then s2\<lparr>s_password := hash (strOf (ub_password body))\<rparr> else s2);
          s4 = (if truthyNum (ub_roll body) \<and> isAdminRole currentUser
                then s3\<lparr>roll := numOf (ub_roll body)\<rparr> else s3);
          s5 = (if truthy (ub_class body) \<and> isAdminRole currentUser
                then s4\<lparr>s_class := strOf (ub_class body)\<rparr> else s4);
          s6 = (if truthy (ub_section body) \<and> isAdminRole currentUser
                then s5\<lparr>s_section := strOf (ub_section body)\<rparr> else s5)
      in s6)"

text \<open>The reply shows id, name, userName, roll, class, section and createdBy of the saved document.\<close>

definition updateStudentHandler ::
  "(string \<Rightarrow> string) \<Rightarrow> int \<Rightarrow> db \<Rightarrow> objectId \<Rightarrow> objectId \<Rightarrow> updateStudentBody \<Rightarrow>
   studentDoc response \<times> db" where
  "updateStudentHandler hash now d reqUserId i body =
     (case findStudent d i of
        None \<Rightarrow> (Msg 404 ''Student not found'', d)
      | Some stu \<Rightarrow>
          (let currentUser = findUser d reqUserId
           in if currentUser = None
                 \<and> (case findStudent d reqUserId of None \<Rightarrow> True | Some cs \<Rightarrow> s_id cs \<noteq> i)
              then (Msg 404 ''Current user not found'', d)
              else
                (case updateStudentDenied currentUser stu body of
                   Some (st, m) \<Rightarrow> (Msg st m, d)
                 | None \<Rightarrow>
                     (if truthy (ub_userName body) \<and> strOf (ub_userName body) \<noteq> userName stu
                         \<and> (case find (\<lambda>x. userName x = strOf (ub_userName body)) (students d) of
                               None \<Rightarrow> False
                             | Some existing \<Rightarrow> s_id existing \<noteq> i)
                      then (Msg 400 ''Username already in use'', d)
                      else if truthyNum (ub_roll body) \<and> truthy (ub_class body)
                              \<and> truthy (ub_section body)
                              \<and> list_ex (\<lambda>x. roll x = numOf (ub_roll body)
                                              \<and> s_class x = strOf (ub_class body)
                                              \<and> s_section x = strOf (ub_section body)
                                              \<and> s_id x \<noteq> i) (students d)
                      then (Msg 400 ''Roll number already exists in this class and section'', d)
                      else if truthy (ub_password body) \<and> length (strOf (ub_password body)) < 6
                      then (Msg 400 ''Password must be at least 6 characters'', d)
                      else
                        (case saveStudent now d (updateStudentFields hash currentUser stu body) of
                           None \<Rightarrow> (Msg 500 ''Server error'', d)
                         | Some (Inl (DuplicateKey k), d') \<Rightarrow>
                             (Msg 400 ''Username or roll number already exists'', d')
                         | Some (Inl e, d') \<Rightarrow> (Msg 500 ''Server error'', d')
                         | Some (Inr saved, d') \<Rightarrow> (Data 200 saved, d'))))))"



section \<open>Saving a user (model/schema.js)\<close>





section \<open>Admin codes and the creation of an admin (signin/route.js)\<close>



definition startsWith :: "string \<Rightarrow> string \<Rightarrow> bool" where
  "startsWith p s = (take (length p) s = p)"













section \<open>Sign-in, refresh and logout (signin/route.js)\<close>










section \<open>The grading contract as the specification words it\<close>




section \<open>Payment cycle calculator (payments/route.js)\<close>

text \<open>
  Dates are JavaScript time values: whole milliseconds since the epoch. The source reads
  the clock with \<^verbatim>\<open>new Date()\<close>; the model takes that reading as the argument
  \<open>now\<close>. \<^verbatim>\<open>Math.floor\<close> of the quotient is \<open>div\<close> on \<open>int\<close>, which rounds
  towards minus infinity as well.
\<close>

record paymentCycle =
  needsReset :: bool
  daysLeft :: int
  isOverdue :: bool

definition msPerDay :: int where
  "msPerDay = 1000 * 60 * 60 * 24"

definition calculatePaymentCycle :: "int \<Rightarrow> int \<Rightarrow> paymentCycle" where
  "calculatePaymentCycle now lastPaymentDate =
     (let daysSinceLastPayment = (now - lastPaymentDate) div msPerDay;
          daysLeft = 30 - daysSinceLastPayment
      in if daysSinceLastPayment \<ge> 30
         then \<lparr>needsReset = True, daysLeft = 0, isOverdue = True\<rparr>
         else \<lparr>needsReset = False, daysLeft = max 0 daysLeft, isOverdue = False\<rparr>)"

section \<open>Updating the payment of a student (payments/route.js, PUT /payments/:studentId)\<close>

record paymentBody =
  pb_paymentAmount :: "number option"
  pb_hasPaid :: "bool option"

text \<open>An update of the first stored document that matches.\<close>

fun updateFirst :: "('a \<Rightarrow> bool) \<Rightarrow> ('a \<Rightarrow> 'a) \<Rightarrow> 'a list \<Rightarrow> 'a list" where
  "updateFirst p f [] = []"
| "updateFirst p f (x # xs) = (if p x then f x # xs else x # updateFirst p f xs)"

text \<open>
  The handler writes with \<^verbatim>\<open>Student.findByIdAndUpdate(studentId, { $set: ... })\<close>, an
  update of the stored document that runs neither the validators nor the pre-save hook.
  The student schema declares no path \<open>lastPaymentDate\<close>: the handler reads it as
  undefined, so that the cycle starts at \<open>createdAt\<close>, and the value it sets for that
  path is not stored. The body of the reply is the updated student with the cycle's
  \<open>daysLeft\<close>, \<open>isOverdue\<close> and the next due date.
\<close>

type_synonym paymentReply = "studentDoc \<times> int \<times> bool \<times> int"

definition putPaymentHandler ::
  "int \<Rightarrow> db \<Rightarrow> userDoc \<Rightarrow> objectId \<Rightarrow> objectId \<Rightarrow> paymentBody \<Rightarrow> paymentReply response \<times> db" where
  "putPaymentHandler now d currentUser reqUserId studentId body =
     (case pb_paymentAmount body of
        None \<Rightarrow> (Msg 400 ''Invalid payment amount'', d)
      | Some amt \<Rightarrow>
          (if amt < 0 then (Msg 400 ''Invalid payment amount'', d)
           else
             (case pb_hasPaid body of
                None \<Rightarrow> (Msg 400 ''Invalid payment status'', d)
              | Some hp \<Rightarrow>
                  (case findStudent d studentId of
                     None \<Rightarrow> (Msg 404 ''Student not found'', d)
                   | Some stu \<Rightarrow>
                       (if role currentUser \<noteq> super_admin \<and> s_createdBy stu = None
                        then (Msg 500 ''Server error'', d)
                        else if role currentUser \<noteq> super_admin
                                \<and> s_createdBy stu \<noteq> Some reqUserId
                        then (Msg 403 ''Not authorized to update this student'', d)
                        else
                          (let d' = d\<lparr>students :=
                                      updateFirst (\<lambda>x. s_id x = studentId)
                                        (\<lambda>x. x\<lparr>paymentAmount := amt, hasPaid := hp\<rparr>)
                                        (students d)\<rparr>
                           in case findStudent d' studentId of
                                None \<Rightarrow> (Msg 500 ''Server error'', d')
                              | Some updatedStudent \<Rightarrow>
                                  (let currentCycle =
                                         calculatePaymentCycle now (s_createdAt updatedStudent)
                                   in (Data 200 (updatedStudent, daysLeft currentCycle,
                                                 isOverdue currentCycle,
                                                 s_createdAt updatedStudent + 30 * msPerDay),
                                       d'))))))))"

definition route_putPayment ::
  "(string \<Rightarrow> objectId option) \<Rightarrow> int \<Rightarrow> db \<Rightarrow> string option \<Rightarrow> objectId \<Rightarrow> paymentBody \<Rightarrow>
   paymentReply response \<times> db" where
  "route_putPayment jwtVerify now d authHeader studentId body =
     (case authenticateToken jwtVerify authHeader of
        Inl (st, m) \<Rightarrow> (Msg st m, d)
      | Inr reqUserId \<Rightarrow>
          (case requireRole [admin, super_admin] d reqUserId of
             Inl (st, m) \<Rightarrow> (Msg st m, d)
           | Inr currentUser \<Rightarrow> putPaymentHandler now d currentUser reqUserId studentId body))"

text \<open>
  The derivation rule as the specification words it: \<open>hasPaid\<close> is the latest entry's
  \<open>isPaid\<close>; \<open>paymentAmount\<close> is 0 if paid, else the increased amount past the due
  date, else the initial amount; 0 and false when the history is empty.
\<close>

definition spec_paymentDerived :: "int \<Rightarrow> studentDoc \<Rightarrow> bool" where
  "spec_paymentDerived currentDate s =
     (if paymentDetails s = [] then paymentAmount s = 0 \<and> hasPaid s = False
      else hasPaid s = isPaid (last (paymentDetails s))
           \<and> paymentAmount s =
               (if isPaid (last (paymentDetails s)) then 0
                else if currentDate > dueDate (last (paymentDetails s))
                then increasedAmount (last (paymentDetails s))
                else initialAmount (last (paymentDetails s))))"

section \<open>Sample data\<close>


definition ex_mark :: "string \<Rightarrow> number \<Rightarrow> number \<Rightarrow> number \<Rightarrow> number \<Rightarrow> mark" where
  "ex_mark s a b c e = \<lparr>subject = s, mcqScore = a, mcqTotal = b, cqScore = c, cqTotal = e,
                        totalScore = 0, grade = None, gpa = None\<rparr>"

definition ex_doc :: "mark list \<Rightarrow> resultDoc" where
  "ex_doc ms = \<lparr>r_student = 7, r_class = ''9'', semester = ''1st'', examType = ''combined'',
                marks = ms, totalMcqMarks = 0, totalCqMarks = 0, totalMarks = 0,
                averageGPA = 0, r_createdAt = 1000\<rparr>"


definition ex_user :: "objectId \<Rightarrow> string \<Rightarrow> role \<Rightarrow> objectId option \<Rightarrow> userDoc" where
  "ex_user i mail r c =
     \<lparr>u_id = i, firstName = ''First'', lastName = ''Last'', email = mail,
      password = ''hashed-secret'', role = r, assignedClasses = [], adminCode = None,
      createdBy = c, refreshTokens = [], createdAt = 500\<rparr>"

definition ex_superAdmin :: userDoc where
  "ex_superAdmin = ex_user 1 ''root@school.edu'' super_admin None"

definition ex_admin :: userDoc where
  "ex_admin = (ex_user 2 ''admin@school.edu'' admin (Some 1))\<lparr>adminCode := Some ''2511001''\<rparr>"

definition ex_teacher :: userDoc where
  "ex_teacher = (ex_user 3 ''teacher@school.edu'' teacher (Some 2))
                  \<lparr>assignedClasses := [(''9'', ''A'')]\<rparr>"

definition ex_student :: "objectId \<Rightarrow> string \<Rightarrow> string \<Rightarrow> int \<Rightarrow> objectId \<Rightarrow> studentDoc" where
  "ex_student i un sec r c =
     \<lparr>s_id = i, s_name = ''Student'', userName = un, s_password = ''hashed-secret'',
      roll = r, s_class = ''9'', s_section = sec, paymentAmount = 0, hasPaid = False,
      paymentDetails = [], s_createdBy = Some c, s_refreshTokens = [], s_createdAt = 600\<rparr>"

definition ex_result :: resultDoc where
  "ex_result =
     (ex_doc [(ex_mark ''Math'' 45 50 40 50)
                \<lparr>totalScore := 85, grade := Some ''A+'', gpa := Some 5\<rparr>])
       \<lparr>r_student := 10, totalMcqMarks := 45, totalCqMarks := 40, totalMarks := 85,
        averageGPA := 5\<rparr>"

text \<open>
  A store with a super-admin, an admin created by it, a teacher of class 9 section A
  created by that admin, a student of 9 A created by the admin, a student of 9 B created
  by another account, and one result of the first student.
\<close>

definition ex_db :: db where
  "ex_db = \<lparr>users = [ex_superAdmin, ex_admin, ex_teacher],
            students = [ex_student 10 ''rahim'' ''A'' 5 2, ex_student 11 ''karim'' ''B'' 6 4],
            results = [ex_result]\<rparr>"

text \<open>A token check that accepts the tokens \<open>t1\<close>, \<open>t2\<close>, \<open>t3\<close> of the three accounts.\<close>

definition ex_jwtVerify :: "string \<Rightarrow> objectId option" where
  "ex_jwtVerify t = (if t = ''t1'' then Some 1 else if t = ''t2'' then Some 2
                     else if t = ''t3'' then Some 3 else None)"



definition ex_paymentBody :: paymentBody where
  "ex_paymentBody = \<lparr>pb_paymentAmount = Some 500, pb_hasPaid = Some True\<rparr>"









section \<open>Theorems\<close>

lemmas ex_defs = ex_db_def ex_superAdmin_def ex_admin_def ex_teacher_def ex_user_def
  ex_student_def ex_result_def ex_doc_def ex_mark_def ex_jwtVerify_def

text \<open>
  C3. With \<open>elapsedDays = floor ((now - lastPaymentDate) / 1 day)\<close>, the calculator
  returns needsReset, isOverdue and daysLeft = 0 when \<open>elapsedDays \<ge> 30\<close>, and otherwise
  neither flag and daysLeft = max 0 (30 - elapsedDays). A last payment exactly 29 days
  ago leaves one day and is not overdue; one exactly 30 days ago needs a reset, is
  overdue and leaves no day.
\<close>

theorem calculatePaymentCycle_spec:
  "calculatePaymentCycle now lastPaymentDate =
     (if (now - lastPaymentDate) div msPerDay \<ge> 30
      then \<lparr>needsReset = True, daysLeft = 0, isOverdue = True\<rparr>
      else \<lparr>needsReset = False,
            daysLeft = max 0 (30 - (now - lastPaymentDate) div msPerDay),
            isOverdue = False\<rparr>)
   \<and> daysLeft (calculatePaymentCycle now (now - 29 * msPerDay)) = 1
   \<and> isOverdue (calculatePaymentCycle now (now - 29 * msPerDay)) = False
   \<and> calculatePaymentCycle now (now - 30 * msPerDay)
       = \<lparr>needsReset = True, daysLeft = 0, isOverdue = True\<rparr>"
  by (simp add: calculatePaymentCycle_def Let_def msPerDay_def)

theorem calculatePaymentCycle_spec_witness:
  "calculatePaymentCycle 1700000000000 (1700000000000 - 12 * msPerDay - 5000)
     = \<lparr>needsReset = False, daysLeft = 18, isOverdue = False\<rparr>
   \<and> daysLeft (calculatePaymentCycle 1700000000000 (1700000000000 - 29 * msPerDay)) = 1
   \<and> needsReset (calculatePaymentCycle 1700000000000 (1700000000000 - 30 * msPerDay))"
  using calculatePaymentCycle_spec [of 1700000000000 "1700000000000 - 12 * msPerDay - 5000"]
  by (simp add: msPerDay_def)

text \<open>
  C5. A delete request aimed at an account whose role is super_admin is refused whoever
  sends it: the reply is an error (401 or 403 from the token check, 404 or 403 from the
  role check, 403 from the handler, or 500 when a non-super-admin actor meets a target
  whose \<open>createdBy\<close> is null), never the success reply, and the store is left as it
  was, so the account is still there.
\<close>

theorem super_admin_never_deleted:
  assumes "findUser d i = Some target" and "role target = super_admin"
  shows "snd (route_deleteUser jwtVerify d authHeader i) = d
       \<and> status (fst (route_deleteUser jwtVerify d authHeader i)) \<in> {401, 403, 404, 500}
       \<and> snd (deleteUserHandler d reqUserId i) = d
       \<and> status (fst (deleteUserHandler d reqUserId i)) \<in> {403, 500}
       \<and> findUser (snd (route_deleteUser jwtVerify d authHeader i)) i = Some target"
proof -
  have h: "snd (deleteUserHandler d r i) = d
         \<and> status (fst (deleteUserHandler d r i)) \<in> {403, 500}" for r
    using assms by (simp add: deleteUserHandler_def split: option.splits)
  have a: "snd (route_deleteUser jwtVerify d authHeader i) = d"
    using h by (simp add: route_deleteUser_def split: sum.splits prod.splits)
  have b: "status (fst (route_deleteUser jwtVerify d authHeader i)) \<in> {401, 403, 404, 500}"
    using h
    by (auto simp: route_deleteUser_def authenticateToken_def requireRole_def
             split: sum.splits prod.splits option.splits if_splits)
  from a b h assms show ?thesis by simp
qed

theorem super_admin_never_deleted_witness:
  "findUser ex_db 1 = Some ex_superAdmin \<and> role ex_superAdmin = super_admin
   \<and> route_deleteUser ex_jwtVerify ex_db (Some ''Bearer t1'') 1
       = (Msg 403 ''Super admin cannot be deleted'', ex_db)
   \<and> route_deleteUser ex_jwtVerify ex_db (Some ''Bearer t2'') 1
       = (Msg 500 ''Server error'', ex_db)
   \<and> findUser (snd (route_deleteUser ex_jwtVerify ex_db (Some ''Bearer t2'') 1)) 1
       = Some ex_superAdmin"
proof -
  have h1: "findUser ex_db 1 = Some ex_superAdmin"
    by (simp add: findUser_def ex_defs)
  have h2: "role ex_superAdmin = super_admin"
    by (simp add: ex_defs)
  have a: "route_deleteUser ex_jwtVerify ex_db (Some ''Bearer t1'') 1
       = (Msg 403 ''Super admin cannot be deleted'', ex_db)"
    by (simp add: route_deleteUser_def authenticateToken_def bearerToken_def requireRole_def
                  deleteUserHandler_def findUser_def ex_defs)
  have b: "route_deleteUser ex_jwtVerify ex_db (Some ''Bearer t2'') 1
       = (Msg 500 ''Server error'', ex_db)"
    by (simp add: route_deleteUser_def authenticateToken_def bearerToken_def requireRole_def
                  deleteUserHandler_def findUser_def ex_defs)
  from super_admin_never_deleted [OF h1 h2, of ex_jwtVerify "Some ''Bearer t2''" 2] h1 h2 a b
  show ?thesis by simp
qed

section \<open>Facts about the grading hook\<close>










section \<open>Result submission\<close>





section \<open>Reading results without a token\<close>

text \<open>
  C9. The route \<^verbatim>\<open>GET /results/:studentId\<close> is registered without the token check:
  a request with no Authorization header, or with a forged token, is answered 200 with
  the student's name, roll, class and section and the latest result. The sibling route
  \<^verbatim>\<open>GET /results/:studentId/:examType\<close> rejects the same requests with 401 and 403.
\<close>

theorem results_served_without_token:
  "route_getResults ex_jwtVerify ex_db None 10
     = Data 200 ((''Student'', 5, ''9'', ''A''),
                 (''combined'', ''1st'',
                  [(ex_mark ''Math'' 45 50 40 50)
                     \<lparr>totalScore := 85, grade := Some ''A+'', gpa := Some 5\<rparr>],
                  45, 40, 85, 5))
   \<and> route_getResults ex_jwtVerify ex_db (Some ''Bearer forged'') 10
       = route_getResults ex_jwtVerify ex_db None 10
   \<and> route_getResultsByExamType ex_jwtVerify ex_db None 10 ''combined''
       = Msg 401 ''Access token required''
   \<and> route_getResultsByExamType ex_jwtVerify ex_db (Some ''Bearer forged'') 10 ''combined''
       = Msg 403 ''Invalid or expired token''"
  by (simp add: route_getResults_def getResultsHandler_def route_getResultsByExamType_def
                authenticateToken_def bearerToken_def findStudent_def latestResult_def
                resultsReplyOf_def ex_defs)

section \<open>Reading one student and reading the collection\<close>






section \<open>Saving and updating a student\<close>

lemma studentPreSave_calls: "fst (studentPreSave now s) = [None]"
  by (simp add: studentPreSave_def Let_def)

lemma studentPreSave_keeps:
  "s_id (snd (studentPreSave now s)) = s_id s"
  "s_name (snd (studentPreSave now s)) = s_name s"
  "userName (snd (studentPreSave now s)) = userName s"
  "roll (snd (studentPreSave now s)) = roll s"
  "s_class (snd (studentPreSave now s)) = s_class s"
  "s_section (snd (studentPreSave now s)) = s_section s"
  "s_refreshTokens (snd (studentPreSave now s)) = s_refreshTokens s"
  "paymentDetails (snd (studentPreSave now s)) = paymentDetails s"
  by (simp_all add: studentPreSave_def Let_def)

lemma settle_studentPreSave:
  "settle (studentPreSave now s) = Some (Inr (snd (studentPreSave now s)))"
  by (simp add: settle_def studentPreSave_calls)

lemma saveStudent_Inr:
  assumes "saveStudent now d s = Some (Inr s', d')"
  shows "s' = snd (studentPreSave now s)
       \<and> students d' = map (\<lambda>x. if s_id x = s_id s then s' else x) (students d)
       \<and> users d' = users d \<and> results d' = results d"
  using assms
  by (auto simp: saveStudent_def settle_studentPreSave studentPreSave_keeps split: if_splits)

lemma saveStudent_cases:
  "saveStudent now d s = Some (Inl ValidationError, d)
   \<or> saveStudent now d s = Some (Inl (DuplicateKey ''userName''), d)
   \<or> (\<exists>d'. saveStudent now d s = Some (Inr (snd (studentPreSave now s)), d'))"
  by (auto simp: saveStudent_def settle_studentPreSave)






section \<open>The payment fields of a student\<close>

lemma studentPreSave_derived: "spec_paymentDerived now (snd (studentPreSave now s))"
  by (simp add: spec_paymentDerived_def studentPreSave_def Let_def)

lemma putPaymentHandler_sets:
  assumes "putPaymentHandler t db cu uid sid body = (Data 200 (u, dl, od, nd), db')"
  shows "pb_paymentAmount body = Some (paymentAmount u) \<and> pb_hasPaid body = Some (hasPaid u)
       \<and> findStudent db' sid = Some u"
proof -
  have upd: "find (\<lambda>x. s_id x = sid) (updateFirst (\<lambda>x. s_id x = sid) f xs) = Some y
             \<Longrightarrow> (\<And>x. s_id (f x) = s_id x) \<Longrightarrow> \<exists>x. y = f x" for f xs y
    by (induction xs) (auto split: if_splits)
  from assms obtain amt hp where
    b: "pb_paymentAmount body = Some amt" "pb_hasPaid body = Some hp" and
    d: "db' = db\<lparr>students := updateFirst (\<lambda>x. s_id x = sid)
                  (\<lambda>x. x\<lparr>paymentAmount := amt, hasPaid := hp\<rparr>) (students db)\<rparr>" and
    f: "findStudent db' sid = Some u"
    by (auto simp: putPaymentHandler_def Let_def split: option.splits if_splits)
  from f d have "find (\<lambda>x. s_id x = sid)
                   (updateFirst (\<lambda>x. s_id x = sid)
                      (\<lambda>x. x\<lparr>paymentAmount := amt, hasPaid := hp\<rparr>) (students db)) = Some u"
    by (simp add: findStudent_def)
  from upd [OF this] obtain x where "u = x\<lparr>paymentAmount := amt, hasPaid := hp\<rparr>"
    by auto
  with b f show ?thesis by simp
qed

text \<open>
  C6, as the code has it. Whenever a student is written by \<^verbatim>\<open>save()\<close> (the student
  update, and sign-in, refresh and logout of a student), the pre-save hook has derived
  \<open>paymentAmount\<close> and \<open>hasPaid\<close> from the latest payment detail and the date of the
  save: \<open>hasPaid\<close> is the entry's \<open>isPaid\<close>; \<open>paymentAmount\<close> is 0 if paid, else the
  increased amount past the due date, else the initial amount; 0 and false for an empty
  history. \<^verbatim>\<open>PUT /payments/:studentId\<close> does not go through \<^verbatim>\<open>save()\<close>: on success
  the stored \<open>paymentAmount\<close> and \<open>hasPaid\<close> are the two values of the request body.
\<close>

theorem payment_fields_derived_on_save:
  assumes "saveStudent now d s = Some (Inr s', d')"
  shows "spec_paymentDerived now s'
       \<and> (\<forall>x\<in>set (students d'). s_id x = s_id s \<longrightarrow> x = s')
       \<and> (\<forall>hash uid i body saved d2.
            updateStudentHandler hash now d uid i body = (Data 200 saved, d2) \<longrightarrow>
            spec_paymentDerived now saved)
       \<and> (\<forall>jwtVerify t db authHeader sid body u dl od nd db'.
            route_putPayment jwtVerify t db authHeader sid body = (Data 200 (u, dl, od, nd), db')
            \<longrightarrow> pb_paymentAmount body = Some (paymentAmount u)
                \<and> pb_hasPaid body = Some (hasPaid u)
                \<and> findStudent db' sid = Some u)"
proof -
  from saveStudent_Inr [OF assms] have
    s1: "s' = snd (studentPreSave now s)" and
    s2: "students d' = map (\<lambda>x. if s_id x = s_id s then s' else x) (students d)"
    by simp_all
  have a: "spec_paymentDerived now s'" by (simp add: s1 studentPreSave_derived)
  have b: "\<forall>x\<in>set (students d'). s_id x = s_id s \<longrightarrow> x = s'"
    by (auto simp: s2 s1 studentPreSave_keeps)
  have c: "spec_paymentDerived now saved"
    if h: "updateStudentHandler hash now d uid i body = (Data 200 saved, d2)"
    for hash uid i body saved d2
  proof -
    from h obtain x where "saveStudent now d x = Some (Inr saved, d2)"
      by (auto simp: updateStudentHandler_def Let_def
               split: option.splits prod.splits if_splits sum.splits error.splits)
    from saveStudent_Inr [OF this] show ?thesis by (simp add: studentPreSave_derived)
  qed
  have e: "pb_paymentAmount body = Some (paymentAmount u) \<and> pb_hasPaid body = Some (hasPaid u)
           \<and> findStudent db' sid = Some u"
    if h: "route_putPayment jwtVerify t db authHeader sid body = (Data 200 (u, dl, od, nd), db')"
    for jwtVerify t db authHeader sid body u dl od nd db'
  proof -
    from h obtain cu uid where "putPaymentHandler t db cu uid sid body = (Data 200 (u, dl, od, nd), db')"
      by (auto simp: route_putPayment_def split: sum.splits prod.splits)
    from putPaymentHandler_sets [OF this] show ?thesis .
  qed
  from a b c e show ?thesis by blast
qed

theorem payment_fields_derived_on_save_witness:
  "saveStudent 2000 ex_db
     ((ex_student 10 ''rahim'' ''A'' 5 2)\<lparr>paymentAmount := 500, hasPaid := True\<rparr>)
   = Some (Inr (ex_student 10 ''rahim'' ''A'' 5 2), ex_db)
   \<and> spec_paymentDerived 2000 (ex_student 10 ''rahim'' ''A'' 5 2)"
proof -
  have h: "saveStudent 2000 ex_db
     ((ex_student 10 ''rahim'' ''A'' 5 2)\<lparr>paymentAmount := 500, hasPaid := True\<rparr>)
   = Some (Inr (ex_student 10 ''rahim'' ''A'' 5 2), ex_db)"
    by code_simp
  from payment_fields_derived_on_save [OF h] h show ?thesis by simp
qed

text \<open>
  C6 as the specification states it does not hold: an admin sets \<open>paymentAmount = 500\<close> and \<open>hasPaid = true\<close>
  on a student whose payment history is empty; the reply is 200 and the stored record
  then has these values, not the derived 0 and false.
\<close>

theorem payment_set_directly_counterexample:
  "paymentDetails (ex_student 10 ''rahim'' ''A'' 5 2) = []
   \<and> status (fst (route_putPayment ex_jwtVerify 2000 ex_db (Some ''Bearer t2'') 10 ex_paymentBody))
       = 200
   \<and> findStudent
        (snd (route_putPayment ex_jwtVerify 2000 ex_db (Some ''Bearer t2'') 10 ex_paymentBody)) 10
       = Some ((ex_student 10 ''rahim'' ''A'' 5 2)\<lparr>paymentAmount := 500, hasPaid := True\<rparr>)
   \<and> \<not> spec_paymentDerived 2000
          ((ex_student 10 ''rahim'' ''A'' 5 2)\<lparr>paymentAmount := 500, hasPaid := True\<rparr>)"
  by code_simp

section \<open>Refresh tokens\<close>


















section \<open>Admin codes\<close>






















lemma startsWith_append: "startsWith p (p @ s)"
  by (simp add: startsWith_def)






end
